theory Spec2Isabelle
  imports Complex_Main "HOL-Library.Char_ord" "HOL-Library.List_Lexorder"
begin

section \<open>Values, responses and exceptions\<close>

text \<open>
  The views of \<^verbatim>\<open>core/views.py\<close> answer with \<^verbatim>\<open>Response(data, status=...)\<close>, where
  \<^verbatim>\<open>data\<close> is a Python dict, list, string or number. A response body is a \<open>json\<close>
  value; a dict is a list of key/value pairs in insertion order. Numbers are rationals:
  a \<^verbatim>\<open>Decimal\<close> is one exactly, and \<^verbatim>\<open>float(d)\<close> is modelled as the exact value of
  \<^verbatim>\<open>d\<close> (the binary rounding of \<^verbatim>\<open>float\<close> is outside the model).
\<close>

datatype json =
    JNull
  | JBool bool
  | JNum rat
  | JStr string
  | JArr "json list"
  | JObj "(string \<times> json) list"

text \<open>\<^verbatim>\<open>d[k]\<close> / \<^verbatim>\<open>d.get(k)\<close> on a body that is a dict.\<close>

fun jget :: "json \<Rightarrow> string \<Rightarrow> json option" where
  "jget (JObj kvs) k = map_of kvs k"
| "jget _ k = None"

record response =
  status_code :: nat
  body :: json

definition Response :: "json \<Rightarrow> nat \<Rightarrow> response" where
  "Response d s = \<lparr>status_code = s, body = d\<rparr>"

text \<open>The body \<^verbatim>\<open>{"detail": msg}\<close> of the error answers.\<close>

definition detail :: "string \<Rightarrow> json" where
  "detail msg = JObj [(''detail'', JStr msg)]"

text \<open>
  Python truthiness of a value of a request body (\<^verbatim>\<open>if not amount\<close>): \<^verbatim>\<open>None\<close>,
  \<^verbatim>\<open>False\<close>, zero and the empty string, list and dict are falsy.
\<close>

fun truthy_json :: "json \<Rightarrow> bool" where
  "truthy_json JNull = False"
| "truthy_json (JBool b) = b"
| "truthy_json (JNum n) = (n \<noteq> 0)"
| "truthy_json (JStr s) = (s \<noteq> [])"
| "truthy_json (JArr xs) = (xs \<noteq> [])"
| "truthy_json (JObj kvs) = (kvs \<noteq> [])"

text \<open>An exception carries its class name and its message; \<open>str\<close> is Python's \<^verbatim>\<open>str(e)\<close>.\<close>

datatype exn = Exn (exn_class: string) (str: string)

section \<open>The tables\<close>

text \<open>
  \<^verbatim>\<open>core/models.py\<close> is not part of the sources; the records below hold the columns the
  views and the seed command read and write. A \<open>Fee\<close> row carries, besides its own
  columns, the two columns the views reach through its foreign keys:
  \<^verbatim>\<open>unit__owner_id\<close> and \<^verbatim>\<open>expense_type__name\<close>. \<open>fee_status\<close> is a string, as the
  column is: \<^verbatim>\<open>'ISSUED'\<close>, \<^verbatim>\<open>'PAID'\<close> and \<^verbatim>\<open>'OVERDUE'\<close> are the values the views name.
\<close>

record Fee =
  fee_id :: nat
  unit__owner_id :: nat
  expense_type__name :: string
  period :: string
  amount :: rat
  fee_status :: string

text \<open>
  A user with the \<^verbatim>\<open>Profile\<close> row that hangs on it: \<open>profile_role\<close> is \<open>None\<close> for a
  user without a profile (where \<^verbatim>\<open>hasattr(request.user, 'profile')\<close> is false).
\<close>

record User =
  user_id :: nat
  username :: string
  email :: string
  is_staff :: bool
  profile_role :: "string option"

record Unit =
  unit_id :: nat
  owner :: nat
  code :: string
  tower :: string
  number :: string

record Payment =
  payment_fee :: nat
  payment_amount :: rat
  payment_method :: json
  payment_note :: json

record MaintenanceRequest =
  request_id :: nat
  reported_by :: nat
  request_title :: string
  request_status :: string

record Notice =
  notice_id :: nat
  title :: string
  created_by :: nat
  publish_date :: int

record Notification =
  notification_id :: nat
  notification_user :: nat
  message :: string
  is_read :: bool

record ActivityLog =
  log_user :: nat
  action :: string
  details :: "string option"

text \<open>The database: one list of rows per table, in primary key order.\<close>

record db =
  users :: "User list"
  units :: "Unit list"
  fees :: "Fee list"
  payments :: "Payment list"
  maintenance_requests :: "MaintenanceRequest list"
  notices :: "Notice list"
  notifications :: "Notification list"
  activity_logs :: "ActivityLog list"

section \<open>Requests and permissions\<close>

text \<open>
  What a view reads of a request: \<^verbatim>\<open>request.user\<close> (\<open>None\<close> for the anonymous user),
  \<^verbatim>\<open>request.query_params\<close> and \<^verbatim>\<open>request.data\<close>.
\<close>

record 'd request =
  user :: "User option"
  query_params :: "string \<rightharpoonup> string"
  data :: 'd

definition IsAuthenticated :: "'d request \<Rightarrow> bool" where
  "IsAuthenticated request = (user request \<noteq> None)"

text \<open>
  The framework checks a view's permissions before it calls the handler, and answers
  itself when one fails: 401 for a request with no authenticated user, 403 otherwise.
  A view of \<^verbatim>\<open>permission_classes = [AllowAny]\<close> has no check.
\<close>

definition permission_denied :: "'d request \<Rightarrow> response" where
  "permission_denied request =
     (case user request of
        None \<Rightarrow> Response (detail ''Authentication credentials were not provided.'') 401
      | Some u \<Rightarrow> Response (detail ''You do not have permission to perform this action.'') 403)"

text \<open>The framework's answer to \<^verbatim>\<open>Http404\<close> raised by \<^verbatim>\<open>get_object\<close>.\<close>

definition not_found :: response where
  "not_found = Response (detail ''Not found.'') 404"

section \<open>Aggregates\<close>

text \<open>
  \<^verbatim>\<open>Sum('amount')\<close> over no rows is SQL \<^verbatim>\<open>NULL\<close> (Python \<^verbatim>\<open>None\<close>);
  \<^verbatim>\<open>Coalesce(e, Value(0))\<close> replaces it by 0; \<^verbatim>\<open>Sum('amount', filter=Q(status='PAID'))\<close>
  sums the rows that pass the filter.
\<close>

definition Sum :: "Fee list \<Rightarrow> rat option" where
  "Sum rows = (if rows = [] then None else Some (sum_list (map amount rows)))"

definition Sum_filter :: "(Fee \<Rightarrow> bool) \<Rightarrow> Fee list \<Rightarrow> rat option" where
  "Sum_filter q rows = Sum (filter q rows)"

definition Coalesce :: "rat option \<Rightarrow> rat \<Rightarrow> rat" where
  "Coalesce e d = (case e of None \<Rightarrow> d | Some v \<Rightarrow> v)"

text \<open>Python's \<^verbatim>\<open>x or 0\<close> on a number or \<^verbatim>\<open>None\<close>: 0 when \<^verbatim>\<open>x\<close> is falsy.\<close>

definition or_0 :: "rat option \<Rightarrow> rat" where
  "or_0 x = (case x of None \<Rightarrow> 0 | Some v \<Rightarrow> if v = 0 then 0 else v)"

definition is_paid :: "Fee \<Rightarrow> bool" where
  "is_paid f = (fee_status f = ''PAID'')"

section \<open>FinanceReportView\<close>

text \<open>
  The three filters of \<^verbatim>\<open>FinanceReportView.get\<close>. A query parameter is
  \<^verbatim>\<open>request.query_params.get(name)\<close>: \<open>None\<close> when absent. \<^verbatim>\<open>if from_period:\<close> is Python
  truthiness, so an empty string filters nothing. Periods are compared as strings.
  \<^verbatim>\<open>filter(unit__owner_id=owner_id)\<close> hands the text of the parameter to the ORM, which
  converts it to a key and raises when it is not one; that conversion is not in the
  sources and is the parameter \<open>to_key\<close>.
\<close>

definition report_queryset ::
  "(string \<Rightarrow> exn + nat) \<Rightarrow> Fee list \<Rightarrow> string option \<Rightarrow> string option \<Rightarrow> string option
     \<Rightarrow> exn + Fee list" where
  "report_queryset to_key rows from_period to_period owner_id =
     (let q1 = (case from_period of
                  Some s \<Rightarrow> if s \<noteq> [] then filter (\<lambda>f. s \<le> period f) rows else rows
                | None \<Rightarrow> rows);
          q2 = (case to_period of
                  Some s \<Rightarrow> if s \<noteq> [] then filter (\<lambda>f. period f \<le> s) q1 else q1
                | None \<Rightarrow> q1)
      in (case owner_id of
            Some s \<Rightarrow>
              if s \<noteq> [] then
                (case to_key s of
                   Inl e \<Rightarrow> Inl e
                 | Inr k \<Rightarrow> Inr (filter (\<lambda>f. unit__owner_id f = k) q2))
              else Inr q2
          | None \<Rightarrow> Inr q2))"

text \<open>The \<^verbatim>\<open>aggregate(issued=..., paid=...)\<close> call and the overall block of the body.\<close>

definition agg_issued :: "Fee list \<Rightarrow> rat" where
  "agg_issued q = Coalesce (Sum q) 0"

definition agg_paid :: "Fee list \<Rightarrow> rat" where
  "agg_paid q = Coalesce (Sum_filter is_paid q) 0"

definition overall :: "Fee list \<Rightarrow> json" where
  "overall q =
     (let overall_issued = agg_issued q;
          overall_paid = agg_paid q;
          overall_outstanding = overall_issued - overall_paid
      in JObj [(''issued'', JNum (or_0 (Some overall_issued))),
               (''paid'', JNum (or_0 (Some overall_paid))),
               (''outstanding'', JNum (or_0 (Some overall_outstanding)))])"

text \<open>
  \<^verbatim>\<open>values('expense_type__name').annotate(...)\<close> groups by the name: one row per
  distinct name, over the fees that carry it. \<^verbatim>\<open>order_by('-issued')\<close> sorts the rows
  by decreasing issued sum (rows with equal sums keep the order of first appearance;
  the database leaves their order open).
\<close>

definition group_rows :: "(Fee \<Rightarrow> string) \<Rightarrow> Fee list \<Rightarrow> string \<Rightarrow> Fee list" where
  "group_rows key q k = filter (\<lambda>f. key f = k) q"

definition type_row :: "Fee list \<Rightarrow> string \<Rightarrow> json" where
  "type_row q name =
     (let g = group_rows expense_type__name q name;
          issued = agg_issued g;
          paid = agg_paid g;
          outstanding = issued - paid
      in JObj [(''type'', JStr name),
               (''count'', JNum (of_nat (length g))),
               (''issued'', JNum issued),
               (''paid'', JNum paid),
               (''outstanding'', JNum outstanding)])"

definition by_type :: "Fee list \<Rightarrow> json list" where
  "by_type q =
     map (type_row q)
       (sort_key (\<lambda>name. - agg_issued (group_rows expense_type__name q name))
          (remdups (map expense_type__name q)))"

text \<open>
  \<^verbatim>\<open>values('period').annotate(issued=..., paid=...).values('period', 'issued', 'paid')\<close>
  \<^verbatim>\<open>.order_by('period')\<close>: one row per distinct period, in increasing order of the period,
  with the three keys the query selects.
\<close>

definition period_row :: "Fee list \<Rightarrow> string \<Rightarrow> json" where
  "period_row q p =
     (let g = group_rows period q p
      in JObj [(''period'', JStr p),
               (''issued'', JNum (agg_issued g)),
               (''paid'', JNum (agg_paid g))])"

definition by_period :: "Fee list \<Rightarrow> json list" where
  "by_period q = map (period_row q) (sort (remdups (map period q)))"

definition report_data :: "Fee list \<Rightarrow> json" where
  "report_data q =
     JObj [(''overall'', overall q),
           (''by_type'', JArr (by_type q)),
           (''by_period'', JArr (by_period q))]"

text \<open>
  \<^verbatim>\<open>FinanceReportView.get\<close>: \<^verbatim>\<open>permission_classes = [IsAuthenticated]\<close>, then the body.
  An exception of the owner filter leaves the view (the body has no \<^verbatim>\<open>try\<close>).
\<close>

definition FinanceReportView_get ::
  "(string \<Rightarrow> exn + nat) \<Rightarrow> 'd request \<Rightarrow> db \<Rightarrow> exn + response" where
  "FinanceReportView_get to_key request d =
     (if \<not> IsAuthenticated request then Inr (permission_denied request)
      else
        (case report_queryset to_key (fees d) (query_params request ''from'')
                (query_params request ''to'') (query_params request ''owner'') of
           Inl e \<Rightarrow> Inl e
         | Inr queryset \<Rightarrow> Inr (Response (report_data queryset) 200)))"

section \<open>DashboardStatsView\<close>

text \<open>
  \<^verbatim>\<open>core/permissions.py\<close> is not part of the sources: the permission class
  \<^verbatim>\<open>IsAdmin\<close> is a parameter of every view that names it, the predicate its
  \<^verbatim>\<open>has_permission\<close> computes on the request.
\<close>

definition pending_fees_total :: "db \<Rightarrow> rat" where
  "pending_fees_total d =
     or_0 (Sum (filter (\<lambda>f. fee_status f \<in> set [''ISSUED'', ''OVERDUE'']) (fees d)))"

definition DashboardStatsView_get :: "('d request \<Rightarrow> bool) \<Rightarrow> 'd request \<Rightarrow> db \<Rightarrow> response" where
  "DashboardStatsView_get IsAdmin request d =
     (if \<not> IsAdmin request then permission_denied request
      else Response (JObj
        [(''total_users'', JNum (of_nat (length (users d)))),
         (''active_units'', JNum (of_nat (length (units d)))),
         (''pending_fees_total'', JNum (pending_fees_total d)),
         (''open_maintenance_requests'',
            JNum (of_nat (length (filter
              (\<lambda>m. request_status m \<in> set [''PENDING'', ''IN_PROGRESS''])
              (maintenance_requests d)))))]) 200)"

section \<open>LoginView and LogoutView\<close>














section \<open>UnitViewSet\<close>

text \<open>
  \<^verbatim>\<open>UnitViewSet\<close> is a \<^verbatim>\<open>ModelViewSet\<close> with \<^verbatim>\<open>permission_classes = [IsAdmin]\<close>. Its
  \<^verbatim>\<open>create\<close> validates the body with the serializer (\<^verbatim>\<open>core/serializers.py\<close> is not
  part of the sources: the parameter \<open>UnitSerializer\<close> gives the validation errors, or
  the row to insert and its representation) and saves the row.
\<close>

definition UnitViewSet_create ::
  "('d request \<Rightarrow> bool) \<Rightarrow> ('d \<Rightarrow> db \<Rightarrow> json + Unit \<times> json) \<Rightarrow> 'd request \<Rightarrow> db
     \<Rightarrow> response \<times> db" where
  "UnitViewSet_create IsAdmin UnitSerializer request d =
     (if \<not> IsAdmin request then (permission_denied request, d)
      else
        (case UnitSerializer (data request) d of
           Inl errors \<Rightarrow> (Response errors 400, d)
         | Inr (u, repr) \<Rightarrow> (Response repr 201, d\<lparr>units := units d @ [u]\<rparr>)))"

section \<open>FeeViewSet\<close>

text \<open>
  \<^verbatim>\<open>get_queryset\<close> narrows the fees by the query parameters \<^verbatim>\<open>mine\<close> and \<^verbatim>\<open>period\<close>;
  \<^verbatim>\<open>get_object\<close> looks the key of the URL up in it and raises \<^verbatim>\<open>Http404\<close> when it is
  not there.
\<close>

definition FeeViewSet_get_queryset :: "'d request \<Rightarrow> db \<Rightarrow> Fee list" where
  "FeeViewSet_get_queryset request d =
     (let qs = fees d;
          qs1 = (case user request of
                   Some u \<Rightarrow>
                     if query_params request ''mine'' = Some ''1''
                     then filter (\<lambda>f. unit__owner_id f = user_id u) qs else qs
                 | None \<Rightarrow> qs)
      in (case query_params request ''period'' of
            Some p \<Rightarrow> if p \<noteq> [] then filter (\<lambda>f. period f = p) qs1 else qs1
          | None \<Rightarrow> qs1))"

definition FeeViewSet_get_object :: "'d request \<Rightarrow> nat \<Rightarrow> db \<Rightarrow> exn + Fee" where
  "FeeViewSet_get_object request pk d =
     (case find (\<lambda>f. fee_id f = pk) (FeeViewSet_get_queryset request d) of
        None \<Rightarrow> Inl (Exn ''Http404'' ''No Fee matches the given query.'')
      | Some f \<Rightarrow> Inr f)"

text \<open>
  \<^verbatim>\<open>request.data.get(k)\<close> and \<^verbatim>\<open>request.data.get(k, default)\<close> on a body whose values are
  JSON values: a missing key gives \<^verbatim>\<open>None\<close>, or the default.
\<close>

definition data_get :: "(string \<rightharpoonup> json) \<Rightarrow> string \<Rightarrow> json" where
  "data_get body_data k = (case body_data k of None \<Rightarrow> JNull | Some v \<Rightarrow> v)"

definition data_get_default :: "(string \<rightharpoonup> json) \<Rightarrow> string \<Rightarrow> json \<Rightarrow> json" where
  "data_get_default body_data k dflt = (case body_data k of None \<Rightarrow> dflt | Some v \<Rightarrow> v)"

text \<open>
  The \<^verbatim>\<open>try\<close> block of \<^verbatim>\<open>FeeViewSet.pay\<close>: its result is the response it returns or the
  exception it raises, with the database as the block left it. Python's \<^verbatim>\<open>float\<close> is the
  parameter \<open>float\<close>, with values in a type \<open>'f\<close> of floats. \<^verbatim>\<open>register_payment\<close>
  (\<^verbatim>\<open>core/services/fees.py\<close>, not part of the sources) is a parameter: it returns its
  result or raises, and may write the database.
\<close>

definition pay_try ::
  "(json \<Rightarrow> exn + 'f) \<Rightarrow> (nat \<Rightarrow> 'f \<Rightarrow> json \<Rightarrow> json \<Rightarrow> db \<Rightarrow> (exn + json) \<times> db)
     \<Rightarrow> (string \<rightharpoonup> json) request \<Rightarrow> nat \<Rightarrow> db \<Rightarrow> (exn + response) \<times> db" where
  "pay_try float register_payment request pk d =
     (case FeeViewSet_get_object request pk d of
        Inl e \<Rightarrow> (Inl e, d)
      | Inr fee \<Rightarrow>
          (let amount = data_get (data request) ''amount'';
               method = data_get_default (data request) ''method'' (JStr ''manual'');
               note = data_get_default (data request) ''note''
                        (JStr ''Pago registrado por administrador.'')
           in if \<not> truthy_json amount then
                (Inr (Response (detail ''El monto es requerido.'') 400), d)
              else
                (case float amount of
                   Inl e \<Rightarrow> (Inl e, d)
                 | Inr a \<Rightarrow>
                     (case register_payment (fee_id fee) a method note d of
                        (Inl e, d') \<Rightarrow> (Inl e, d')
                      | (Inr result, d') \<Rightarrow> (Inr (Response result 200), d')))))"

text \<open>
  \<^verbatim>\<open>FeeViewSet.pay\<close>: the permission check of \<^verbatim>\<open>get_permissions\<close> (\<^verbatim>\<open>IsAdmin\<close> for every
  action but \<^verbatim>\<open>list\<close> and \<^verbatim>\<open>retrieve\<close>), then the \<^verbatim>\<open>try\<close> block with its
  \<^verbatim>\<open>except Exception as e\<close>.
\<close>

definition FeeViewSet_pay ::
  "((string \<rightharpoonup> json) request \<Rightarrow> bool) \<Rightarrow> (json \<Rightarrow> exn + 'f)
     \<Rightarrow> (nat \<Rightarrow> 'f \<Rightarrow> json \<Rightarrow> json \<Rightarrow> db \<Rightarrow> (exn + json) \<times> db)
     \<Rightarrow> (string \<rightharpoonup> json) request \<Rightarrow> nat \<Rightarrow> db \<Rightarrow> response \<times> db" where
  "FeeViewSet_pay IsAdmin float register_payment request pk d =
     (if \<not> IsAdmin request then (permission_denied request, d)
      else
        (case pay_try float register_payment request pk d of
           (Inl e, d') \<Rightarrow> (Response (detail (str e)) 400, d')
         | (Inr response, d') \<Rightarrow> (response, d')))"

text \<open>A fee table row after the fee of key \<open>pk\<close> was marked paid.\<close>

definition mark_paid :: "nat \<Rightarrow> Fee \<Rightarrow> Fee" where
  "mark_paid pk g = (if fee_id g = pk then g\<lparr>fee_status := ''PAID''\<rparr> else g)"

text \<open>
  Modelled from the spec: \<^verbatim>\<open>register_payment\<close> of \<^verbatim>\<open>core/services/fees.py\<close> is not part of
  the sources. The spec: the fee and payment handler "records a payment against a fee,
  flips fee status"; "marking a fee paid updates its status"; the status has no
  transition guard. The model appends the payment and sets the status of the fee of
  that key to \<^verbatim>\<open>'PAID'\<close>; for a key with no fee it raises.
\<close>

definition register_payment ::
  "nat \<Rightarrow> rat \<Rightarrow> json \<Rightarrow> json \<Rightarrow> db \<Rightarrow> (exn + json) \<times> db" where
  "register_payment pk amt method note d =
     (case find (\<lambda>f. fee_id f = pk) (fees d) of
        None \<Rightarrow> (Inl (Exn ''DoesNotExist'' ''Fee matching query does not exist.''), d)
      | Some f \<Rightarrow>
          (Inr (JObj [(''fee'', JNum (of_nat pk)), (''status'', JStr ''PAID'')]),
           d\<lparr>fees := map (mark_paid pk) (fees d),
             payments := payments d @
               [\<lparr>payment_fee = pk, payment_amount = amt, payment_method = method,
                 payment_note = note\<rparr>]\<rparr>))"

section \<open>NoticeViewSet\<close>

text \<open>
  \<^verbatim>\<open>get_queryset\<close> with \<open>now\<close> the value of \<^verbatim>\<open>timezone.now()\<close>; a time is a number.
  \<^verbatim>\<open>list\<close> and \<^verbatim>\<open>retrieve\<close> need an authenticated user; \<^verbatim>\<open>retrieve\<close> looks the key up in
  the queryset and answers 404 when it is not there.
\<close>

definition NoticeViewSet_get_queryset :: "int \<Rightarrow> db \<Rightarrow> Notice list" where
  "NoticeViewSet_get_queryset now d =
     sort_key (\<lambda>n. - publish_date n) (filter (\<lambda>n. publish_date n \<le> now) (notices d))"

definition NoticeViewSet_list ::
  "(Notice \<Rightarrow> json) \<Rightarrow> int \<Rightarrow> 'd request \<Rightarrow> db \<Rightarrow> response" where
  "NoticeViewSet_list NoticeSerializer now request d =
     (if \<not> IsAuthenticated request then permission_denied request
      else Response (JArr (map NoticeSerializer (NoticeViewSet_get_queryset now d))) 200)"

definition NoticeViewSet_retrieve ::
  "(Notice \<Rightarrow> json) \<Rightarrow> int \<Rightarrow> 'd request \<Rightarrow> nat \<Rightarrow> db \<Rightarrow> response" where
  "NoticeViewSet_retrieve NoticeSerializer now request pk d =
     (if \<not> IsAuthenticated request then permission_denied request
      else
        (case find (\<lambda>n. notice_id n = pk) (NoticeViewSet_get_queryset now d) of
           None \<Rightarrow> not_found
         | Some n \<Rightarrow> Response (NoticeSerializer n) 200))"

section \<open>NotificationViewSet\<close>

definition NotificationViewSet_mark_all_as_read :: "'d request \<Rightarrow> db \<Rightarrow> response \<times> db" where
  "NotificationViewSet_mark_all_as_read request d =
     (case user request of
        None \<Rightarrow> (permission_denied request, d)
      | Some u \<Rightarrow>
          (Response JNull 204,
           d\<lparr>notifications :=
               map (\<lambda>n. if notification_user n = user_id u then n\<lparr>is_read := True\<rparr> else n)
                 (notifications d)\<rparr>))"

section \<open>FeePaymentPreferenceView and MercadoPagoWebhookView\<close>

text \<open>
  \<^verbatim>\<open>f"...{fee_id}"\<close> writes the key in decimal; \<open>fee_pk\<close> is the \<^verbatim>\<open>fee_id\<close> of the URL.
\<close>

function str_nat :: "nat \<Rightarrow> string" where
  "str_nat n =
     (if n < 10 then [''0123456789'' ! n]
      else str_nat (n div 10) @ [''0123456789'' ! (n mod 10)])"
  by pat_completeness auto
termination
  by (relation "measure id") auto

declare str_nat.simps [simp del]

definition placeholder_qr_base64 :: string where
  "placeholder_qr_base64 =
     ''iVBORw0KGgoAAAANSUhEUgAAAQAAAAEAAQMAAABmvDolAAAABlBMVEX///8AAABVwtN+AAAB'' @
     ''bklEQVR4nO2WsQ3DMAxEFXqBJRgQ3QWLsAwLMEaowGBLYIZgCf5/lW6ECIZ/uW/yvB5k3zJ2'' @
     ''lO/ncsP5P+H8IeE/IfwnhP+E8J8Q/hPCf0L4Twh/CeE/IfwnhP+E8J8Q/hPCf0L4Twh/CeE/'' @
     ''IfwnhP+E8J8Q/hPCf0L4Twh/CeE/IfwnhP+E8J8Q/hPCf0L4Twh/CeE/IfwnhP+E8J8Q/hPC'' @
     ''f0L4Twh/CeE/IfwnhP+E8J8Q/hPCf0L4Twh/CeE/IfwnhP+E8J8Q/hPCf0L4Twh/CeE/Ifwn'' @
     ''hP+E8J8Q/hPCf0L4Twh/CeE/IfwnhP+E8J8Q/hPCf0L4Twh/CeE/IfwnhP+E8J8Q/hPCf0L4'' @
     ''Twh/CeE/IfwnhP+E8J8Q/hPCf0L4Twh/CeE/IfwnhP+E8J8Q/hPCf0L4Twh/CeE/IfwnhP+E'' @
     ''8J8Q/hPCf0L4Twh/CeE/IfwnhP+E8J8Q/hPCf0L4Twh/CeE/IfwnhP+E8J8Q/hPCf0L4Twh/'' @
     ''CeE/IfwnhP+E8J8Q/hPCf0L4Twh/CeE/IfwnhP+E8J8Q/hPCf0L4Twh/CeE/IfwnhP+E8J8Q'' @
     ''/hPCf0L4Twh/CeE/IfwnhP+E8J8Q/hPCf0L4Twh/CeE/IfwnhP+E8J8Q/hPCf0L4Twh/CeE/'' @
     ''IfwnhP+E8J8Q/hPCf0L4Twh/CeE/IfwnhP+E8J8Q/hPCf0L4Twh/CeE/IfwnhP+E8J8Q/hPC'' @
     ''f0L4Twh/CeE/IfwnhP+E8J8Q/hPCf0L4Twh/CeE/IfwnhP+E8J8Q/hPCf0L4Twh/CeE/Ifwn'' @
     ''hP+E8J8Q/hPCf0L4Twh/CeE/IfwnhP+E8J8Q/hPCf0L4Twh/CeE/IfwnhP+E8J8Q/hPCf0L4'' @
     ''Twh/CeE/IfwnhP+E8J8Q/hPCf0L4Twh/CeE/IfwnhP+E8J8Q/hPCf0L4Twh/CeE/IfwnhP+E'' @
     ''8J8Q/hPCf0L4Twh/CeE/IfwnhP+E8J8Q/hPCf0L4Twh/CeE/IfwnhP+E8J8Q/hPCf0L4Twh/'' @
     ''CeE/IfwnhP+E8J/s38A2gUzC8oVoRBAAAAAElFTkSuQmCC''"

definition fake_link :: "nat \<Rightarrow> string" where
  "fake_link fee_pk = ''https://www.mercadopago.com.ar/pagar/con/qr/'' @ str_nat fee_pk"

definition mock_response :: "nat \<Rightarrow> json" where
  "mock_response fee_pk =
     JObj [(''init_point'', JStr (fake_link fee_pk)),
           (''point_of_interaction'',
              JObj [(''transaction_data'',
                 JObj [(''qr_code_base64'', JStr placeholder_qr_base64)])])]"

text \<open>
  The lookup \<^verbatim>\<open>Fee.objects.get(**fee_lookup)\<close>: by key, and by owner too unless the user
  has a profile of role \<^verbatim>\<open>'ADMIN'\<close>.
\<close>

definition is_profile_admin :: "User \<Rightarrow> bool" where
  "is_profile_admin u = (case profile_role u of None \<Rightarrow> False | Some r \<Rightarrow> r = ''ADMIN'')"

definition fee_lookup :: "User \<Rightarrow> nat \<Rightarrow> Fee \<Rightarrow> bool" where
  "fee_lookup u pk f =
     (if \<not> is_profile_admin u then fee_id f = pk \<and> unit__owner_id f = user_id u
      else fee_id f = pk)"

definition FeePaymentPreferenceView_post :: "'d request \<Rightarrow> nat \<Rightarrow> db \<Rightarrow> response \<times> db" where
  "FeePaymentPreferenceView_post request fee_pk d =
     (case user request of
        None \<Rightarrow> (permission_denied request, d)
      | Some u \<Rightarrow>
          (case find (fee_lookup u fee_pk) (fees d) of
             None \<Rightarrow> (Response (detail ''Cuota no encontrada.'') 404, d)
           | Some f \<Rightarrow> (Response (mock_response fee_pk) 200, d)))"

definition MercadoPagoWebhookView_post :: "'d request \<Rightarrow> db \<Rightarrow> response \<times> db" where
  "MercadoPagoWebhookView_post request d = (Response JNull 200, d)"

section \<open>The actions of FeeViewSet and of MaintenanceRequestViewSet\<close>

text \<open>
  \<^verbatim>\<open>FeeViewSet.get_permissions\<close>, on the name of the action (\<^verbatim>\<open>self.action\<close>): an
  authenticated user for \<^verbatim>\<open>list\<close> and \<^verbatim>\<open>retrieve\<close>, \<^verbatim>\<open>IsAdmin\<close> for every other action. The
  framework runs an action by checking these permissions and then calling the action's
  handler, here a parameter.
\<close>

definition FeeViewSet_get_permissions ::
  "('d request \<Rightarrow> bool) \<Rightarrow> string \<Rightarrow> 'd request \<Rightarrow> bool" where
  "FeeViewSet_get_permissions IsAdmin action_name =
     (if action_name \<in> set [''list'', ''retrieve''] then IsAuthenticated else IsAdmin)"

definition FeeViewSet_dispatch ::
  "('d request \<Rightarrow> bool) \<Rightarrow> string \<Rightarrow> ('d request \<Rightarrow> db \<Rightarrow> response \<times> db) \<Rightarrow> 'd request \<Rightarrow> db
     \<Rightarrow> response \<times> db" where
  "FeeViewSet_dispatch IsAdmin action_name handler request d =
     (if \<not> FeeViewSet_get_permissions IsAdmin action_name request
      then (permission_denied request, d)
      else handler request d)"









section \<open>The claims' vocabulary\<close>

text \<open>
  A fee matches the filters of a report request when it passes each filter that is
  present and not empty; the owner filter is accepted when it is absent, empty or a text
  that \<open>to_key\<close> converts.
\<close>

definition matching ::
  "(string \<Rightarrow> exn + nat) \<Rightarrow> string option \<Rightarrow> string option \<Rightarrow> string option \<Rightarrow> Fee \<Rightarrow> bool" where
  "matching to_key from_period to_period owner_id f =
     ((case from_period of None \<Rightarrow> True | Some s \<Rightarrow> s = [] \<or> s \<le> period f)
      \<and> (case to_period of None \<Rightarrow> True | Some s \<Rightarrow> s = [] \<or> period f \<le> s)
      \<and> (case owner_id of None \<Rightarrow> True | Some s \<Rightarrow> s = [] \<or> to_key s = Inr (unit__owner_id f)))"

definition owner_accepted :: "(string \<Rightarrow> exn + nat) \<Rightarrow> string option \<Rightarrow> bool" where
  "owner_accepted to_key owner_id =
     (case owner_id of None \<Rightarrow> True | Some s \<Rightarrow> s = [] \<or> \<not> isl (to_key s))"

section \<open>Example data\<close>

text \<open>
  A small database in the shape the seed command produces: the administrator, one
  resident, and three fees over two periods and two expense types.
\<close>

definition admin_user :: User where
  "admin_user = \<lparr>user_id = 1, username = ''admin'', email = ''admin@smart.com'',
     is_staff = True, profile_role = Some ''ADMIN''\<rparr>"

definition resident :: User where
  "resident = \<lparr>user_id = 2, username = ''maria.lopez7'', email = ''maria.lopez7@example.com'',
     is_staff = False, profile_role = Some ''RESIDENT''\<rparr>"

definition example_fees :: "Fee list" where
  "example_fees =
     [\<lparr>fee_id = 1, unit__owner_id = 2, expense_type__name = ''Cuota de Mantenimiento'',
        period = ''2025-06'', amount = 1500, fee_status = ''PAID''\<rparr>,
      \<lparr>fee_id = 2, unit__owner_id = 2, expense_type__name = ''Fondo de Reserva'',
        period = ''2025-06'', amount = 500, fee_status = ''ISSUED''\<rparr>,
      \<lparr>fee_id = 3, unit__owner_id = 3, expense_type__name = ''Cuota de Mantenimiento'',
        period = ''2025-07'', amount = 1500, fee_status = ''OVERDUE''\<rparr>]"

definition example_notifications :: "Notification list" where
  "example_notifications =
     [\<lparr>notification_id = 1, notification_user = 2, message = ''Nueva cuota emitida'',
        is_read = False\<rparr>,
      \<lparr>notification_id = 2, notification_user = 3, message = ''Reserva confirmada'',
        is_read = False\<rparr>,
      \<lparr>notification_id = 3, notification_user = 2, message = ''Pago registrado'',
        is_read = True\<rparr>]"

definition notice_ascensores :: Notice where
  "notice_ascensores = \<lparr>notice_id = 1, title = ''Recordatorio de Mantenimiento de Ascensores'',
     created_by = 1, publish_date = 100\<rparr>"

definition notice_fumigacion :: Notice where
  "notice_fumigacion = \<lparr>notice_id = 2, title = ''Fumigacion General'', created_by = 1,
     publish_date = 300\<rparr>"

definition example_notices :: "Notice list" where
  "example_notices = [notice_ascensores, notice_fumigacion]"

text \<open>An instance of the parameter \<open>NoticeSerializer\<close>: the columns of the row.\<close>

definition notice_json :: "Notice \<Rightarrow> json" where
  "notice_json n =
     JObj [(''id'', JNum (of_nat (notice_id n))), (''title'', JStr (title n)),
           (''created_by'', JNum (of_nat (created_by n))),
           (''publish_date'', JNum (of_int (publish_date n)))]"

definition request_luz :: MaintenanceRequest where
  "request_luz = \<lparr>request_id = 1, reported_by = 2, request_title = ''Luz del pasillo quemada'',
     request_status = ''PENDING''\<rparr>"

definition example_db :: db where
  "example_db = \<lparr>users = [admin_user, resident],
     units = [\<lparr>unit_id = 1, owner = 2, code = ''TA-1-A'', tower = ''A'', number = ''1-A''\<rparr>],
     fees = example_fees,
     payments = [],
     maintenance_requests = [request_luz],
     notices = example_notices,
     notifications = example_notifications,
     activity_logs = []\<rparr>"

text \<open>
  An instance of the parameter \<open>IsAdmin\<close>: the check on the profile's role that
  \<^verbatim>\<open>FeePaymentPreferenceView\<close> writes inline.
\<close>

definition IsAdmin_by_role :: "'d request \<Rightarrow> bool" where
  "IsAdmin_by_role request =
     (case user request of None \<Rightarrow> False | Some u \<Rightarrow> is_profile_admin u)"

definition request_of :: "User option \<Rightarrow> 'd \<Rightarrow> 'd request" where
  "request_of u body_data = \<lparr>user = u, query_params = Map.empty, data = body_data\<rparr>"

text \<open>An instance of the parameter \<open>to_key\<close> that accepts no text.\<close>

definition no_key :: "string \<Rightarrow> exn + nat" where
  "no_key s = Inl (Exn ''ValueError'' ''not a number'')"

text \<open>An instance of \<open>to_key\<close> that reads decimal numerals.\<close>

definition digit_value :: "char \<Rightarrow> nat option" where
  "digit_value c = map_of (zip ''0123456789'' [0, 1, 2, 3, 4, 5, 6, 7, 8, 9]) c"

definition decimal_key :: "string \<Rightarrow> exn + nat" where
  "decimal_key s =
     (if s \<noteq> [] \<and> list_all (\<lambda>c. digit_value c \<noteq> None) s
      then Inr (foldl (\<lambda>a c. 10 * a + (case digit_value c of None \<Rightarrow> 0 | Some v \<Rightarrow> v)) 0 s)
      else Inl (Exn ''ValueError'' ''Field 'id' expected a number''))"

text \<open>A report request of the resident with a from-period and an owner filter.\<close>

definition filtered_request :: "unit request" where
  "filtered_request = \<lparr>user = Some resident,
     query_params = [''from'' \<mapsto> ''2025-06'', ''owner'' \<mapsto> ''2''], data = ()\<rparr>"




text \<open>
  An instance of the parameter \<open>UnitSerializer\<close>: the body is the unit to insert, refused
  when its code is taken (unit codes are unique).
\<close>

definition unit_json :: "Unit \<Rightarrow> json" where
  "unit_json u =
     JObj [(''id'', JNum (of_nat (unit_id u))), (''owner'', JNum (of_nat (owner u))),
           (''code'', JStr (code u)), (''tower'', JStr (tower u)), (''number'', JStr (number u))]"

definition example_UnitSerializer :: "Unit \<Rightarrow> db \<Rightarrow> json + Unit \<times> json" where
  "example_UnitSerializer u d =
     (if code u \<in> set (map code (units d))
      then Inl (JObj [(''code'', JArr [JStr ''unit with this code already exists.''])])
      else Inr (u, unit_json u))"

definition new_unit :: Unit where
  "new_unit = \<lparr>unit_id = 2, owner = 2, code = ''TB-2-B'', tower = ''B'', number = ''2-B''\<rparr>"

text \<open>
  An instance of the parameter \<open>float\<close>, with the rationals for floats: numbers and
  decimal numerals convert, other text raises \<^verbatim>\<open>ValueError\<close>, other values \<^verbatim>\<open>TypeError\<close>.
\<close>

fun example_float :: "json \<Rightarrow> exn + rat" where
  "example_float (JNum r) = Inr r"
| "example_float (JBool b) = Inr (if b then 1 else 0)"
| "example_float (JStr s) =
     (case decimal_key s of
        Inr n \<Rightarrow> Inr (of_nat n)
      | Inl e \<Rightarrow> Inl (Exn ''ValueError'' (''could not convert string to float: '' @ s)))"
| "example_float v = Inl (Exn ''TypeError'' ''float() argument must be a string or a real number'')"

text \<open>Requests to the pay action: the body holds the amount, or nothing.\<close>

definition pay_request :: "User option \<Rightarrow> json option \<Rightarrow> (string \<rightharpoonup> json) request" where
  "pay_request u amt =
     \<lparr>user = u, query_params = Map.empty,
      data = (\<lambda>k. if k = ''amount'' then amt else None)\<rparr>"

text \<open>The second fee of the example database, by name.\<close>

definition fee_fondo_junio :: Fee where
  "fee_fondo_junio = \<lparr>fee_id = 2, unit__owner_id = 2, expense_type__name = ''Fondo de Reserva'',
     period = ''2025-06'', amount = 500, fee_status = ''ISSUED''\<rparr>"


section \<open>Sums of the report\<close>

lemma Coalesce_Sum: "Coalesce (Sum q) 0 = sum_list (map amount q)"
  by (simp add: Coalesce_def Sum_def)

lemma agg_issued_eq: "agg_issued q = sum_list (map amount q)"
  by (simp add: agg_issued_def Coalesce_Sum)

lemma agg_paid_eq: "agg_paid q = sum_list (map amount (filter is_paid q))"
  by (simp add: agg_paid_def Sum_filter_def Coalesce_Sum)

lemma or_0_Some: "or_0 (Some v) = v"
  by (simp add: or_0_def)

lemma or_0_Sum: "or_0 (Sum q) = sum_list (map amount q)"
  by (simp add: or_0_def Sum_def)

lemma sum_split_filter:
  "sum_list (map amount q) =
     sum_list (map amount (filter P q)) + sum_list (map amount (filter (\<lambda>f. \<not> P f) q))"
  by (induction q) auto

lemma overall_eq:
  "overall q = JObj [(''issued'', JNum (sum_list (map amount q))),
      (''paid'', JNum (sum_list (map amount (filter is_paid q)))),
      (''outstanding'', JNum (sum_list (map amount q) - sum_list (map amount (filter is_paid q))))]"
  by (simp add: overall_def Let_def or_0_Some agg_issued_eq agg_paid_eq)

lemma overall_outstanding:
  "Option.bind (jget (report_data q) ''overall'') (\<lambda>ov. jget ov ''outstanding'')
     = Some (JNum (sum_list (map amount q) - sum_list (map amount (filter is_paid q))))"
  by (simp add: report_data_def overall_def Let_def or_0_Some agg_issued_eq agg_paid_eq)

lemma report_queryset_matching:
  assumes "owner_accepted to_key ow"
  shows "report_queryset to_key rows fr to ow = Inr (filter (matching to_key fr to ow) rows)"
proof -
  have *: "filter P (filter Q xs) = filter (\<lambda>x. Q x \<and> P x) xs" for P Q and xs :: "Fee list"
    by (induction xs) auto
  show ?thesis
    using assms
    by (cases fr; cases to; cases ow)
       (auto simp: report_queryset_def matching_def owner_accepted_def Let_def *
             split: sum.splits intro!: filter_cong)
qed

section \<open>Lookups by primary key\<close>

lemma find_by_key:
  assumes "distinct (map key xs)" and "set ys \<subseteq> set xs" and "n \<in> set ys"
  shows "find (\<lambda>m. key m = key n) ys = Some n"
proof -
  have inj: "inj_on key (set xs)"
    using assms(1) by (simp add: distinct_map)
  obtain m where m: "find (\<lambda>m. key m = key n) ys = Some m"
    using assms(3) by (cases "find (\<lambda>m. key m = key n) ys") (auto simp: find_None_iff)
  then have "m \<in> set ys" and "key m = key n"
    by (auto simp: find_Some_iff)
  then have "m = n"
    using inj assms(2,3) by (auto dest: inj_onD)
  then show ?thesis using m by simp
qed

lemma find_absent:
  assumes "distinct (map key xs)" and "set ys \<subseteq> set xs" and "n \<in> set xs" and "n \<notin> set ys"
  shows "find (\<lambda>m. key m = key n) ys = None"
proof -
  have inj: "inj_on key (set xs)"
    using assms(1) by (simp add: distinct_map)
  have "\<not> (\<exists>m. m \<in> set ys \<and> key m = key n)"
    using inj assms(2,3,4) by (auto dest: inj_onD)
  then show ?thesis by (simp add: find_None_iff)
qed

section \<open>The branches of the pay action\<close>

lemma pay_admin:
  "IsAdmin request \<Longrightarrow>
     FeeViewSet_pay IsAdmin float reg request pk d =
       (case pay_try float reg request pk d of
          (Inl e, d') \<Rightarrow> (Response (detail (str e)) 400, d')
        | (Inr response, d') \<Rightarrow> (response, d'))"
  by (simp add: FeeViewSet_pay_def)






section \<open>A successful payment\<close>

lemma register_payment_fees:
  "register_payment pk a m n d = (Inr result, d') \<Longrightarrow>
     fees d' = map (mark_paid pk) (fees d)
     \<and> d' = d\<lparr>fees := fees d', payments := payments d @
          [\<lparr>payment_fee = pk, payment_amount = a, payment_method = m, payment_note = n\<rparr>]\<rparr>"
  by (auto simp: register_payment_def split: option.splits)

lemma pay_success:
  assumes admin: "IsAdmin request"
    and pay: "FeeViewSet_pay IsAdmin float register_payment request pk d = (resp, d')"
    and ok: "status_code resp = 200"
  shows "\<exists>fee a result.
           FeeViewSet_get_object request pk d = Inr fee
         \<and> truthy_json (data_get (data request) ''amount'')
         \<and> float (data_get (data request) ''amount'') = Inr a
         \<and> register_payment (fee_id fee) a
               (data_get_default (data request) ''method'' (JStr ''manual''))
               (data_get_default (data request) ''note''
                  (JStr ''Pago registrado por administrador.'')) d = (Inr result, d')
         \<and> resp = Response result 200"
proof -
  have p: "FeeViewSet_pay IsAdmin float register_payment request pk d =
       (case pay_try float register_payment request pk d of
          (Inl e, d') \<Rightarrow> (Response (detail (str e)) 400, d')
        | (Inr response, d') \<Rightarrow> (response, d'))"
    using admin by (rule pay_admin)
  show ?thesis
    using pay ok unfolding p pay_try_def Let_def
    by (auto simp: Response_def split: sum.splits prod.splits if_splits)
qed

lemma get_object_key: "FeeViewSet_get_object request pk d = Inr fee \<Longrightarrow> fee_id fee = pk"
  by (auto simp: FeeViewSet_get_object_def find_Some_iff split: option.splits)

section \<open>The financial report\<close>

lemma report_queryset_raises:
  "ow = Some s \<Longrightarrow> s \<noteq> [] \<Longrightarrow> to_key s = Inl e \<Longrightarrow> report_queryset to_key rows fr to ow = Inl e"
  by (simp add: report_queryset_def Let_def)

lemma type_row_eq:
  "type_row q name =
     JObj [(''type'', JStr name),
           (''count'', JNum (of_nat (length (filter (\<lambda>f. expense_type__name f = name) q)))),
           (''issued'', JNum (sum_list (map amount (filter (\<lambda>f. expense_type__name f = name) q)))),
           (''paid'', JNum (sum_list (map amount
               (filter (\<lambda>f. expense_type__name f = name \<and> is_paid f) q)))),
           (''outstanding'', JNum (sum_list (map amount (filter (\<lambda>f. expense_type__name f = name) q))
               - sum_list (map amount (filter (\<lambda>f. expense_type__name f = name \<and> is_paid f) q))))]"
  by (simp add: type_row_def Let_def group_rows_def agg_issued_eq agg_paid_eq conj_commute)

lemma period_row_eq:
  "period_row q p =
     JObj [(''period'', JStr p),
           (''issued'', JNum (sum_list (map amount (filter (\<lambda>f. period f = p) q)))),
           (''paid'', JNum (sum_list (map amount (filter (\<lambda>f. period f = p \<and> is_paid f) q))))]"
  by (simp add: period_row_def Let_def group_rows_def agg_issued_eq agg_paid_eq conj_commute)

lemma set_by_type: "set (by_type q) = type_row q ` expense_type__name ` set q"
  by (simp add: by_type_def)

lemma length_by_type: "length (by_type q) = card (expense_type__name ` set q)"
  by (simp add: by_type_def length_remdups_card_conv)

lemma set_by_period: "set (by_period q) = period_row q ` period ` set q"
  by (simp add: by_period_def)

lemma length_by_period: "length (by_period q) = card (period ` set q)"
  by (simp add: by_period_def length_remdups_card_conv)

lemma periods_by_period:
  "map (\<lambda>r. jget r ''period'') (by_period q) = map (\<lambda>p. Some (JStr p)) (sort (remdups (map period q)))"
  by (simp add: by_period_def period_row_def Let_def)


text \<open>
  Claim C1, as amended. For every fee table, every authenticated request and every
  combination of the from, to and owner filters whose owner text is accepted, the report
  answers 200 with: overall, issued as the sum of the amounts of the matching fees, paid
  as the sum over the matching fees of status \<^verbatim>\<open>PAID\<close>, and outstanding as issued minus
  paid; one row per expense type name among the matching fees, with the count, issued,
  paid and outstanding = issued - paid of the fees of that name; and one row per period
  among the matching fees with issued and paid of that period, and no outstanding value.
\<close>

theorem finance_report_sums:
  fixes to_key request d
  defines "q \<equiv> filter (matching to_key (query_params request ''from'')
                  (query_params request ''to'') (query_params request ''owner'')) (fees d)"
  assumes auth: "IsAuthenticated request"
    and owner: "owner_accepted to_key (query_params request ''owner'')"
  shows "FinanceReportView_get to_key request d
           = Inr (Response (JObj [(''overall'', overall q), (''by_type'', JArr (by_type q)),
                                  (''by_period'', JArr (by_period q))]) 200)
     \<and> overall q =
         JObj [(''issued'', JNum (sum_list (map amount q))),
               (''paid'', JNum (sum_list (map amount (filter is_paid q)))),
               (''outstanding'',
                  JNum (sum_list (map amount q) - sum_list (map amount (filter is_paid q))))]
     \<and> length (by_type q) = card (expense_type__name ` set q)
     \<and> set (by_type q) =
         (\<lambda>name.
            JObj [(''type'', JStr name),
                  (''count'', JNum (of_nat (length (filter (\<lambda>f. expense_type__name f = name) q)))),
                  (''issued'',
                     JNum (sum_list (map amount (filter (\<lambda>f. expense_type__name f = name) q)))),
                  (''paid'',
                     JNum (sum_list (map amount
                       (filter (\<lambda>f. expense_type__name f = name \<and> is_paid f) q)))),
                  (''outstanding'',
                     JNum (sum_list (map amount (filter (\<lambda>f. expense_type__name f = name) q))
                       - sum_list (map amount
                           (filter (\<lambda>f. expense_type__name f = name \<and> is_paid f) q))))])
           ` expense_type__name ` set q
     \<and> length (by_period q) = card (period ` set q)
     \<and> set (by_period q) =
         (\<lambda>p.
            JObj [(''period'', JStr p),
                  (''issued'', JNum (sum_list (map amount (filter (\<lambda>f. period f = p) q)))),
                  (''paid'',
                     JNum (sum_list (map amount (filter (\<lambda>f. period f = p \<and> is_paid f) q))))])
           ` period ` set q"
proof -
  have rq: "report_queryset to_key (fees d) (query_params request ''from'')
      (query_params request ''to'') (query_params request ''owner'') = Inr q"
    unfolding q_def by (rule report_queryset_matching [OF owner])
  have view: "FinanceReportView_get to_key request d
      = Inr (Response (JObj [(''overall'', overall q), (''by_type'', JArr (by_type q)),
                             (''by_period'', JArr (by_period q))]) 200)"
    using auth by (simp add: FinanceReportView_get_def rq report_data_def)
  have t: "set (by_type q) = type_row q ` expense_type__name ` set q"
    by (rule set_by_type)
  have p: "set (by_period q) = period_row q ` period ` set q"
    by (rule set_by_period)
  show ?thesis
    apply (intro conjI)
         apply (rule view)
        apply (rule overall_eq)
       apply (rule length_by_type)
      apply (unfold t, rule image_cong [OF refl], rule type_row_eq)
     apply (rule length_by_period)
    apply (unfold p, rule image_cong [OF refl], rule period_row_eq)
    done
qed

theorem finance_report_sums_witness:
  "FinanceReportView_get decimal_key filtered_request example_db =
     Inr (Response (JObj
       [(''overall'',
           JObj [(''issued'', JNum 2000), (''paid'', JNum 1500), (''outstanding'', JNum 500)]),
        (''by_type'',
           JArr [JObj [(''type'', JStr ''Cuota de Mantenimiento''), (''count'', JNum 1),
                       (''issued'', JNum 1500), (''paid'', JNum 1500),
                       (''outstanding'', JNum 0)],
                 JObj [(''type'', JStr ''Fondo de Reserva''), (''count'', JNum 1),
                       (''issued'', JNum 500), (''paid'', JNum 0),
                       (''outstanding'', JNum 500)]]),
        (''by_period'',
           JArr [JObj [(''period'', JStr ''2025-06''), (''issued'', JNum 2000),
                       (''paid'', JNum 1500)]])]) 200)"
proof -
  have auth: "IsAuthenticated filtered_request"
    by (simp add: IsAuthenticated_def filtered_request_def)
  have owner: "owner_accepted decimal_key (query_params filtered_request ''owner'')"
    by (simp add: owner_accepted_def filtered_request_def decimal_key_def digit_value_def)
  have q: "filter (matching decimal_key (query_params filtered_request ''from'')
        (query_params filtered_request ''to'') (query_params filtered_request ''owner''))
        (fees example_db) = take 2 example_fees"
    by (simp add: matching_def filtered_request_def decimal_key_def digit_value_def
          example_db_def example_fees_def)
  have rows: "overall (take 2 example_fees) =
        JObj [(''issued'', JNum 2000), (''paid'', JNum 1500), (''outstanding'', JNum 500)]"
    "by_type (take 2 example_fees) =
        [JObj [(''type'', JStr ''Cuota de Mantenimiento''), (''count'', JNum 1),
               (''issued'', JNum 1500), (''paid'', JNum 1500), (''outstanding'', JNum 0)],
         JObj [(''type'', JStr ''Fondo de Reserva''), (''count'', JNum 1),
               (''issued'', JNum 500), (''paid'', JNum 0), (''outstanding'', JNum 500)]]"
    "by_period (take 2 example_fees) =
        [JObj [(''period'', JStr ''2025-06''), (''issued'', JNum 2000), (''paid'', JNum 1500)]]"
    by (simp_all add: overall_eq by_type_def by_period_def type_row_eq period_row_eq
          example_fees_def is_paid_def agg_issued_eq group_rows_def)
  from finance_report_sums [of filtered_request decimal_key example_db, OF auth owner]
  show ?thesis
    unfolding q rows by (rule conjunct1)
qed


text \<open>
  The claim as stated asks for an outstanding value in every group, the periods
  included. On the example database the rows of \<^verbatim>\<open>by_period\<close> carry the keys
  \<^verbatim>\<open>period\<close>, \<^verbatim>\<open>issued\<close> and \<^verbatim>\<open>paid\<close> only.
\<close>

theorem report_period_rows_lack_outstanding:
  "FinanceReportView_get no_key (request_of (Some resident) ()) example_db =
     Inr (Response (JObj
       [(''overall'',
           JObj [(''issued'', JNum 3500), (''paid'', JNum 1500), (''outstanding'', JNum 2000)]),
        (''by_type'',
           JArr [JObj [(''type'', JStr ''Cuota de Mantenimiento''), (''count'', JNum 2),
                       (''issued'', JNum 3000), (''paid'', JNum 1500),
                       (''outstanding'', JNum 1500)],
                 JObj [(''type'', JStr ''Fondo de Reserva''), (''count'', JNum 1),
                       (''issued'', JNum 500), (''paid'', JNum 0),
                       (''outstanding'', JNum 500)]]),
        (''by_period'',
           JArr [JObj [(''period'', JStr ''2025-06''), (''issued'', JNum 2000),
                       (''paid'', JNum 1500)],
                 JObj [(''period'', JStr ''2025-07''), (''issued'', JNum 1500),
                       (''paid'', JNum 0)]])]) 200)
   \<and> jget (JObj [(''period'', JStr ''2025-06''), (''issued'', JNum 2000), (''paid'', JNum 1500)])
        ''outstanding'' = None"
  by (simp add: FinanceReportView_get_def request_of_def IsAuthenticated_def example_db_def
        report_queryset_def report_data_def overall_eq by_type_def by_period_def type_row_eq
        period_row_eq example_fees_def is_paid_def agg_issued_eq group_rows_def)


section \<open>Paying a fee and the report afterwards\<close>

lemma mark_paid_other: "pk \<notin> fee_id ` set xs \<Longrightarrow> map (mark_paid pk) xs = xs"
  by (induction xs) (auto simp: mark_paid_def)

lemma sum_amount_mark_paid: "sum_list (map amount (map (mark_paid pk) xs)) = sum_list (map amount xs)"
  by (induction xs) (auto simp: mark_paid_def)

lemma sum_paid_mark_paid:
  assumes "distinct (map fee_id xs)" and "f \<in> set xs" and "\<not> is_paid f"
  shows "sum_list (map amount (filter is_paid (map (mark_paid (fee_id f)) xs)))
           = sum_list (map amount (filter is_paid xs)) + amount f"
  using assms
proof (induction xs)
  case Nil
  then show ?case by simp
next
  case (Cons x xs)
  show ?case
  proof (cases "x = f")
    case True
    then have "fee_id f \<notin> fee_id ` set xs"
      using Cons.prems(1) by auto
    then have same: "map (mark_paid (fee_id f)) xs = xs"
      by (rule mark_paid_other)
    have head: "is_paid (mark_paid (fee_id f) f)" "amount (mark_paid (fee_id f) f) = amount f"
      by (simp_all add: mark_paid_def is_paid_def)
    show ?thesis
      using Cons.prems(3) head by (simp add: True same)
  next
    case False
    then have in_xs: "f \<in> set xs"
      using Cons.prems(2) by simp
    then have "fee_id x \<noteq> fee_id f"
      using Cons.prems(1) by auto
    then have "mark_paid (fee_id f) x = x"
      by (simp add: mark_paid_def)
    moreover have "sum_list (map amount (filter is_paid (map (mark_paid (fee_id f)) xs)))
           = sum_list (map amount (filter is_paid xs)) + amount f"
      using Cons.IH Cons.prems(1,3) in_xs by simp
    ultimately show ?thesis by simp
  qed
qed

lemma matching_mark_paid: "matching to_key fr to ow (mark_paid pk g) = matching to_key fr to ow g"
  by (simp add: matching_def mark_paid_def split: option.splits)

lemma filter_matching_mark_paid:
  "filter (matching to_key fr to ow) (map (mark_paid pk) xs)
     = map (mark_paid pk) (filter (matching to_key fr to ow) xs)"
  by (induction xs) (simp_all add: matching_mark_paid)


text \<open>
  Claim C2, against the modelled \<^verbatim>\<open>register_payment\<close>. For every fee of the table that is
  not yet paid (keys being distinct) and every pay request for it that passes the
  permission check and is answered 200: afterwards the fee table is the old one with that
  fee's status set to \<^verbatim>\<open>PAID\<close>, and that fee only; and every report request whose filters
  the fee matches is answered, before and after, with the same issued sum and with a paid
  sum that has grown by the fee's amount.
\<close>

theorem pay_marks_fee_paid_and_report_follows:
  fixes float :: "json \<Rightarrow> exn + rat"
  assumes admin: "IsAdmin request"
    and keys: "distinct (map fee_id (fees d))"
    and f: "f \<in> set (fees d)"
    and unpaid: "fee_status f \<noteq> ''PAID''"
    and pay: "FeeViewSet_pay IsAdmin float register_payment request (fee_id f) d = (resp, d')"
    and ok: "status_code resp = 200"
    and auth: "IsAuthenticated request2"
    and owner: "owner_accepted to_key (query_params request2 ''owner'')"
    and incl: "matching to_key (query_params request2 ''from'') (query_params request2 ''to'')
                 (query_params request2 ''owner'') f"
  shows "fees d' = map (mark_paid (fee_id f)) (fees d)
     \<and> f\<lparr>fee_status := ''PAID''\<rparr> \<in> set (fees d')
     \<and> (\<forall>g \<in> set (fees d'). fee_id g = fee_id f \<longrightarrow> g = f\<lparr>fee_status := ''PAID''\<rparr>)
     \<and> (\<exists>q q' issued paid.
           FinanceReportView_get to_key request2 d = Inr (Response (report_data q) 200)
         \<and> FinanceReportView_get to_key request2 d' = Inr (Response (report_data q') 200)
         \<and> jget (report_data q) ''overall''
             = Some (JObj [(''issued'', JNum issued), (''paid'', JNum paid),
                           (''outstanding'', JNum (issued - paid))])
         \<and> jget (report_data q') ''overall''
             = Some (JObj [(''issued'', JNum issued), (''paid'', JNum (paid + amount f)),
                           (''outstanding'', JNum (issued - (paid + amount f)))]))"
proof -
  let ?m = "matching to_key (query_params request2 ''from'') (query_params request2 ''to'')
      (query_params request2 ''owner'')"
  let ?q = "filter ?m (fees d)"
  let ?q' = "filter ?m (fees d')"
  obtain fee a result where
    obj: "FeeViewSet_get_object request (fee_id f) d = Inr fee"
    and reg: "register_payment (fee_id fee) a
               (data_get_default (data request) ''method'' (JStr ''manual''))
               (data_get_default (data request) ''note''
                  (JStr ''Pago registrado por administrador.'')) d = (Inr result, d')"
    using pay_success [OF admin pay ok] by blast
  have key: "fee_id fee = fee_id f"
    using obj by (rule get_object_key)
  have fees': "fees d' = map (mark_paid (fee_id f)) (fees d)"
    using register_payment_fees [OF reg] by (simp add: key)
  have inj: "inj_on fee_id (set (fees d))"
    using keys by (simp add: distinct_map)
  have flipped: "f\<lparr>fee_status := ''PAID''\<rparr> \<in> set (fees d')"
    using f by (force simp: fees' mark_paid_def)
  have only: "\<forall>g \<in> set (fees d'). fee_id g = fee_id f \<longrightarrow> g = f\<lparr>fee_status := ''PAID''\<rparr>"
    using inj f by (auto simp: fees' mark_paid_def dest: inj_onD)
  have q': "?q' = map (mark_paid (fee_id f)) ?q"
    by (simp add: fees' filter_matching_mark_paid)
  have fq: "f \<in> set ?q"
    using f incl by simp
  have dq: "distinct (map fee_id ?q)"
    using keys by (rule distinct_map_filter)
  have issued: "sum_list (map amount ?q') = sum_list (map amount ?q)"
    by (simp only: q' sum_amount_mark_paid)
  have paid: "sum_list (map amount (filter is_paid ?q'))
      = sum_list (map amount (filter is_paid ?q)) + amount f"
    unfolding q' using dq fq unpaid by (intro sum_paid_mark_paid) (simp_all add: is_paid_def)
  have rq: "report_queryset to_key rows (query_params request2 ''from'')
      (query_params request2 ''to'') (query_params request2 ''owner'') = Inr (filter ?m rows)"
    for rows
    by (rule report_queryset_matching [OF owner])
  have before: "FinanceReportView_get to_key request2 d = Inr (Response (report_data ?q) 200)"
    and after: "FinanceReportView_get to_key request2 d' = Inr (Response (report_data ?q') 200)"
    using auth by (simp_all add: FinanceReportView_get_def rq)
  have ov: "jget (report_data q) ''overall''
      = Some (JObj [(''issued'', JNum (sum_list (map amount q))),
                    (''paid'', JNum (sum_list (map amount (filter is_paid q)))),
                    (''outstanding'',
                       JNum (sum_list (map amount q) - sum_list (map amount (filter is_paid q))))])"
    for q
    by (simp add: report_data_def overall_eq)
  have report: "\<exists>q q' issued paid.
           FinanceReportView_get to_key request2 d = Inr (Response (report_data q) 200)
         \<and> FinanceReportView_get to_key request2 d' = Inr (Response (report_data q') 200)
         \<and> jget (report_data q) ''overall''
             = Some (JObj [(''issued'', JNum issued), (''paid'', JNum paid),
                           (''outstanding'', JNum (issued - paid))])
         \<and> jget (report_data q') ''overall''
             = Some (JObj [(''issued'', JNum issued), (''paid'', JNum (paid + amount f)),
                           (''outstanding'', JNum (issued - (paid + amount f)))])"
    apply (rule exI [of _ ?q])
    apply (rule exI [of _ ?q'])
    apply (rule exI [of _ "sum_list (map amount ?q)"])
    apply (rule exI [of _ "sum_list (map amount (filter is_paid ?q))"])
    apply (simp only: before after ov issued paid)
    done
  show ?thesis
    using fees' flipped only report by (intro conjI)
qed


theorem pay_marks_fee_paid_and_report_follows_witness:
  "fees (snd (FeeViewSet_pay IsAdmin_by_role example_float register_payment
        (pay_request (Some admin_user) (Some (JNum 500))) 2 example_db))
     = [hd example_fees, fee_fondo_junio\<lparr>fee_status := ''PAID''\<rparr>, last example_fees]
   \<and> (\<exists>q q'.
         FinanceReportView_get decimal_key filtered_request example_db
           = Inr (Response (report_data q) 200)
       \<and> FinanceReportView_get decimal_key filtered_request
            (snd (FeeViewSet_pay IsAdmin_by_role example_float register_payment
               (pay_request (Some admin_user) (Some (JNum 500))) 2 example_db))
           = Inr (Response (report_data q') 200)
       \<and> jget (report_data q) ''overall''
           = Some (JObj [(''issued'', JNum 2000), (''paid'', JNum 1500),
                         (''outstanding'', JNum 500)])
       \<and> jget (report_data q') ''overall''
           = Some (JObj [(''issued'', JNum 2000), (''paid'', JNum 2000),
                         (''outstanding'', JNum 0)]))"
proof -
  let ?request = "pay_request (Some admin_user) (Some (JNum 500))"
  let ?pay = "FeeViewSet_pay IsAdmin_by_role example_float register_payment ?request 2 example_db"
  let ?f = fee_fondo_junio
  have admin: "IsAdmin_by_role ?request"
    by (simp add: IsAdmin_by_role_def pay_request_def admin_user_def is_profile_admin_def)
  have keys: "distinct (map fee_id (fees example_db))"
    by (simp add: example_db_def example_fees_def)
  have f: "?f \<in> set (fees example_db)" and unpaid: "fee_status ?f \<noteq> ''PAID''"
    and k: "fee_id ?f = 2" and amt: "amount ?f = 500"
    by (simp_all add: example_db_def example_fees_def fee_fondo_junio_def)
  have pay: "FeeViewSet_pay IsAdmin_by_role example_float register_payment ?request (fee_id ?f)
      example_db = (fst ?pay, snd ?pay)"
    by (simp add: k)
  have ok: "status_code (fst ?pay) = 200"
    by (simp add: FeeViewSet_pay_def pay_try_def FeeViewSet_get_object_def
          FeeViewSet_get_queryset_def pay_request_def IsAdmin_by_role_def admin_user_def
          is_profile_admin_def example_db_def example_fees_def data_get_def
          data_get_default_def register_payment_def Response_def)
  have auth: "IsAuthenticated filtered_request"
    by (simp add: IsAuthenticated_def filtered_request_def)
  have owner: "owner_accepted decimal_key (query_params filtered_request ''owner'')"
    by (simp add: owner_accepted_def filtered_request_def decimal_key_def digit_value_def)
  have incl: "matching decimal_key (query_params filtered_request ''from'')
      (query_params filtered_request ''to'') (query_params filtered_request ''owner'') ?f"
    by (simp add: matching_def filtered_request_def decimal_key_def digit_value_def
          fee_fondo_junio_def)
  from pay_marks_fee_paid_and_report_follows
    [where IsAdmin = IsAdmin_by_role and request = ?request and d = example_db and f = ?f
       and float = example_float and resp = "fst ?pay" and d' = "snd ?pay"
       and ?request2.0 = filtered_request and to_key = decimal_key,
     OF admin keys f unpaid pay ok auth owner incl]
  obtain q q' issued paid where
    fees': "fees (snd ?pay) = map (mark_paid (fee_id ?f)) (fees example_db)"
    and before: "FinanceReportView_get decimal_key filtered_request example_db
      = Inr (Response (report_data q) 200)"
    and after: "FinanceReportView_get decimal_key filtered_request (snd ?pay)
      = Inr (Response (report_data q') 200)"
    and ov: "jget (report_data q) ''overall''
      = Some (JObj [(''issued'', JNum issued), (''paid'', JNum paid),
                    (''outstanding'', JNum (issued - paid))])"
    and ov': "jget (report_data q') ''overall''
      = Some (JObj [(''issued'', JNum issued), (''paid'', JNum (paid + amount ?f)),
                    (''outstanding'', JNum (issued - (paid + amount ?f)))])"
    by blast
  have concrete: "FinanceReportView_get decimal_key filtered_request example_db
      = Inr (Response (report_data (take 2 example_fees)) 200)"
    by (simp add: FinanceReportView_get_def IsAuthenticated_def report_queryset_def
          filtered_request_def decimal_key_def digit_value_def example_db_def example_fees_def)
  have "report_data q = report_data (take 2 example_fees)"
    using before concrete by (simp add: Response_def)
  then have "jget (report_data q) ''overall''
      = Some (JObj [(''issued'', JNum 2000), (''paid'', JNum 1500), (''outstanding'', JNum 500)])"
    by (simp add: report_data_def overall_eq example_fees_def is_paid_def)
  then have vals: "issued = 2000" "paid = 1500"
    using ov by simp_all
  have list: "map (mark_paid (fee_id ?f)) (fees example_db)
      = [hd example_fees, ?f\<lparr>fee_status := ''PAID''\<rparr>, last example_fees]"
    by (simp add: mark_paid_def example_db_def example_fees_def fee_fondo_junio_def)
  show ?thesis
    using fees' before after ov ov' by (auto simp: vals amt list)
qed

section \<open>Exceptions of the pay action\<close>





section \<open>Status changes and permissions\<close>


lemma pay_is_dispatch:
  "FeeViewSet_pay IsAdmin float reg request pk d =
     FeeViewSet_dispatch IsAdmin ''pay''
       (\<lambda>request d.
          case pay_try float reg request pk d of
            (Inl e, d') \<Rightarrow> (Response (detail (str e)) 400, d')
          | (Inr response, d') \<Rightarrow> (response, d'))
       request d"
  by (simp add: FeeViewSet_pay_def FeeViewSet_dispatch_def FeeViewSet_get_permissions_def)




















section \<open>Creating a unit\<close>

text \<open>
  Claim C5. A create request to the Unit endpoint that fails the \<^verbatim>\<open>IsAdmin\<close> check is
  answered by the permission check, with 401 or 403, before the serializer is asked; no
  unit is created and the database is unchanged.
\<close>

theorem non_admin_cannot_create_unit:
  assumes "\<not> IsAdmin request"
  shows "UnitViewSet_create IsAdmin UnitSerializer request d = (permission_denied request, d)
     \<and> (status_code (permission_denied request) = 401
          \<or> status_code (permission_denied request) = 403)
     \<and> units (snd (UnitViewSet_create IsAdmin UnitSerializer request d)) = units d"
  using assms
  by (simp add: UnitViewSet_create_def permission_denied_def Response_def split: option.splits)

theorem non_admin_cannot_create_unit_witness:
  "UnitViewSet_create IsAdmin_by_role example_UnitSerializer (request_of (Some resident) new_unit)
      example_db
     = (Response (detail ''You do not have permission to perform this action.'') 403, example_db)
   \<and> UnitViewSet_create IsAdmin_by_role example_UnitSerializer (request_of None new_unit)
      example_db
     = (Response (detail ''Authentication credentials were not provided.'') 401, example_db)
   \<and> UnitViewSet_create IsAdmin_by_role example_UnitSerializer (request_of (Some admin_user) new_unit)
      example_db
     = (Response (unit_json new_unit) 201, example_db\<lparr>units := units example_db @ [new_unit]\<rparr>)"
proof -
  have r: "\<not> IsAdmin_by_role (request_of (Some resident) new_unit)"
    by (simp add: IsAdmin_by_role_def request_of_def resident_def is_profile_admin_def)
  have a: "\<not> IsAdmin_by_role (request_of None new_unit)"
    by (simp add: IsAdmin_by_role_def request_of_def)
  have pr: "permission_denied (request_of (Some resident) new_unit)
      = Response (detail ''You do not have permission to perform this action.'') 403"
    by (simp add: permission_denied_def request_of_def)
  have pa: "permission_denied (request_of None new_unit)
      = Response (detail ''Authentication credentials were not provided.'') 401"
    by (simp add: permission_denied_def request_of_def)
  have adm: "UnitViewSet_create IsAdmin_by_role example_UnitSerializer
      (request_of (Some admin_user) new_unit) example_db
     = (Response (unit_json new_unit) 201, example_db\<lparr>units := units example_db @ [new_unit]\<rparr>)"
    by (simp add: UnitViewSet_create_def IsAdmin_by_role_def request_of_def admin_user_def
          is_profile_admin_def example_UnitSerializer_def example_db_def new_unit_def)
  from non_admin_cannot_create_unit
      [where IsAdmin = IsAdmin_by_role and request = "request_of (Some resident) new_unit"
         and UnitSerializer = example_UnitSerializer and d = example_db, OF r]
    non_admin_cannot_create_unit
      [where IsAdmin = IsAdmin_by_role and request = "request_of None new_unit"
         and UnitSerializer = example_UnitSerializer and d = example_db, OF a]
  show ?thesis
    by (simp add: pr pa adm)
qed

section \<open>Login and logout\<close>










section \<open>The payment preference placeholder and the webhook\<close>

lemma lt10: "(n::nat) < 10 \<Longrightarrow> n \<in> set [0, 1, 2, 3, 4, 5, 6, 7, 8, 9]"
  by (simp add: numeral_eq_Suc less_Suc_eq)

lemma digit_value_nth: "n < 10 \<Longrightarrow> digit_value (''0123456789'' ! n) = Some n"
proof -
  assume "n < 10"
  then have "n \<in> set [0, 1, 2, 3, 4, 5, 6, 7, 8, 9]"
    by (rule lt10)
  moreover have "\<forall>k \<in> set [0, 1, 2, 3, 4, 5, 6, 7, 8, 9]. digit_value (''0123456789'' ! k) = Some k"
    by (simp add: digit_value_def)
  ultimately show ?thesis by blast
qed

lemma str_nat_small: "n < 10 \<Longrightarrow> str_nat n = [''0123456789'' ! n]"
  by (subst str_nat.simps) simp

lemma str_nat_large:
  "\<not> n < 10 \<Longrightarrow> str_nat n = str_nat (n div 10) @ [''0123456789'' ! (n mod 10)]"
  by (subst str_nat.simps) simp


lemma digits_str_nat: "list_all (\<lambda>c. digit_value c \<noteq> None) (str_nat n) \<and> str_nat n \<noteq> []"
proof (induction n rule: str_nat.induct)
  case (1 n)
  show ?case
  proof (cases "n < 10")
    case True
    then show ?thesis
      by (simp add: str_nat_small digit_value_nth)
  next
    case False
    have m: "n mod 10 < 10" by simp
    from 1 [OF False] show ?thesis
      by (simp add: str_nat_large [OF False] digit_value_nth [OF m])
  qed
qed

lemma value_str_nat:
  "foldl (\<lambda>a c. 10 * a + (case digit_value c of None \<Rightarrow> 0 | Some v \<Rightarrow> v)) 0 (str_nat n) = n"
proof (induction n rule: str_nat.induct)
  case (1 n)
  show ?case
  proof (cases "n < 10")
    case True
    then show ?thesis
      by (simp add: str_nat_small digit_value_nth)
  next
    case False
    have m: "n mod 10 < 10" by simp
    from 1 [OF False] show ?thesis
      by (simp add: str_nat_large [OF False] digit_value_nth [OF m])
  qed
qed


lemma decimal_key_str_nat: "decimal_key (str_nat n) = Inr n"
  using digits_str_nat [of n] by (simp add: decimal_key_def value_str_nat)

lemma str_nat_inj:
  assumes "str_nat m = str_nat n"
  shows "m = n"
proof -
  have "Inr m = decimal_key (str_nat m)"
    by (simp only: decimal_key_str_nat)
  also have "\<dots> = decimal_key (str_nat n)"
    by (simp only: assms)
  also have "\<dots> = Inr n"
    by (simp only: decimal_key_str_nat)
  finally show ?thesis by simp
qed

lemma find_satisfied: "x \<in> set xs \<Longrightarrow> P x \<Longrightarrow> find P xs \<noteq> None"
  by (auto simp: find_None_iff)

text \<open>
  Claim C7, as amended. For every authenticated request to the payment-preference
  endpoint that names an existing fee (owned by the requester, or any fee when the
  requester's profile has the role \<^verbatim>\<open>ADMIN\<close>), the answer is 200 with a placeholder: a link
  made of a fixed prefix and the decimal key of the fee named by the request, which
  determines that key, and a constant QR image; the database is unchanged. The webhook
  answers 200 to every request and changes nothing.
\<close>

theorem payment_preference_placeholder:
  assumes u: "user request = Some u"
    and f: "f \<in> set (fees d)" "fee_id f = pk"
    and mine: "is_profile_admin u \<or> unit__owner_id f = user_id u"
  shows "FeePaymentPreferenceView_post request pk d =
           (Response (JObj
              [(''init_point'',
                  JStr (''https://www.mercadopago.com.ar/pagar/con/qr/'' @ str_nat pk)),
               (''point_of_interaction'',
                  JObj [(''transaction_data'',
                     JObj [(''qr_code_base64'', JStr placeholder_qr_base64)])])]) 200, d)
     \<and> (\<forall>pk'. str_nat pk' = str_nat pk \<longrightarrow> pk' = pk)
     \<and> MercadoPagoWebhookView_post request' d' = (Response JNull 200, d')"
proof -
  have "fee_lookup u pk f"
    using f mine by (auto simp: fee_lookup_def)
  then have "find (fee_lookup u pk) (fees d) \<noteq> None"
    using f(1) by (rule find_satisfied [rotated])
  then obtain g where g: "find (fee_lookup u pk) (fees d) = Some g"
    by blast
  have post: "FeePaymentPreferenceView_post request pk d = (Response (mock_response pk) 200, d)"
    using u g by (simp add: FeePaymentPreferenceView_post_def)
  have inj: "\<forall>pk'. str_nat pk' = str_nat pk \<longrightarrow> pk' = pk"
    by (blast dest: str_nat_inj)
  show ?thesis
    using inj by (simp add: post mock_response_def fake_link_def MercadoPagoWebhookView_post_def)
qed

theorem payment_preference_placeholder_witness:
  "FeePaymentPreferenceView_post (request_of (Some resident) ()) 2 example_db =
     (Response (JObj
        [(''init_point'', JStr ''https://www.mercadopago.com.ar/pagar/con/qr/2''),
         (''point_of_interaction'',
            JObj [(''transaction_data'',
               JObj [(''qr_code_base64'', JStr placeholder_qr_base64)])])]) 200, example_db)
   \<and> MercadoPagoWebhookView_post (request_of None ()) example_db = (Response JNull 200, example_db)"
proof -
  have u: "user (request_of (Some resident) ()) = Some resident"
    by (simp add: request_of_def)
  have f: "example_fees ! 1 \<in> set (fees example_db)" "fee_id (example_fees ! 1) = 2"
    by (simp_all add: example_db_def example_fees_def)
  have mine: "is_profile_admin resident \<or> unit__owner_id (example_fees ! 1) = user_id resident"
    by (simp add: example_fees_def resident_def)
  have s: "str_nat 2 = ''2''"
    by (simp add: str_nat_small)
  from payment_preference_placeholder [OF u f mine, of "request_of None ()" example_db]
  show ?thesis
    by (simp add: s)
qed

text \<open>
  The claim as stated has one answer, with a fixed link, for every such request. The
  administrator's requests for the fees 1 and 2 get different links.
\<close>

theorem payment_link_names_the_fee:
  "jget (body (fst (FeePaymentPreferenceView_post (request_of (Some admin_user) ()) 1 example_db)))
      ''init_point'' = Some (JStr ''https://www.mercadopago.com.ar/pagar/con/qr/1'')
   \<and> jget (body (fst (FeePaymentPreferenceView_post (request_of (Some admin_user) ()) 2 example_db)))
      ''init_point'' = Some (JStr ''https://www.mercadopago.com.ar/pagar/con/qr/2'')"
  by (simp add: FeePaymentPreferenceView_post_def request_of_def example_db_def example_fees_def
        fee_lookup_def is_profile_admin_def admin_user_def mock_response_def fake_link_def
        str_nat_small Response_def)

section \<open>Marking notifications as read\<close>

text \<open>
  Claim C8. For every authenticated user, \<^verbatim>\<open>mark_all_as_read\<close> answers 204 with no body;
  the notifications table keeps its rows, each notification of the user becomes the same
  row with \<^verbatim>\<open>is_read\<close> set, every notification of another user stays as it is, and every
  other table is unchanged.
\<close>

theorem mark_all_as_read_frame:
  assumes "user request = Some u"
  shows "fst (NotificationViewSet_mark_all_as_read request d) = Response JNull 204
     \<and> length (notifications (snd (NotificationViewSet_mark_all_as_read request d)))
         = length (notifications d)
     \<and> (\<forall>i < length (notifications d).
           notifications (snd (NotificationViewSet_mark_all_as_read request d)) ! i
             = (if notification_user (notifications d ! i) = user_id u
                then (notifications d ! i)\<lparr>is_read := True\<rparr>
                else notifications d ! i))
     \<and> snd (NotificationViewSet_mark_all_as_read request d)
         = d\<lparr>notifications := notifications (snd (NotificationViewSet_mark_all_as_read request d))\<rparr>"
  using assms by (simp add: NotificationViewSet_mark_all_as_read_def)

theorem mark_all_as_read_frame_witness:
  "NotificationViewSet_mark_all_as_read (request_of (Some resident) ()) example_db
     = (Response JNull 204,
        example_db\<lparr>notifications :=
          [\<lparr>notification_id = 1, notification_user = 2, message = ''Nueva cuota emitida'',
             is_read = True\<rparr>,
           \<lparr>notification_id = 2, notification_user = 3, message = ''Reserva confirmada'',
             is_read = False\<rparr>,
           \<lparr>notification_id = 3, notification_user = 2, message = ''Pago registrado'',
             is_read = True\<rparr>]\<rparr>)"
proof -
  have u: "user (request_of (Some resident) ()) = Some resident"
    by (simp add: request_of_def)
  have n: "notifications example_db = example_notifications"
    by (simp add: example_db_def)
  let ?r = "NotificationViewSet_mark_all_as_read (request_of (Some resident) ()) example_db"
  from mark_all_as_read_frame [OF u, of example_db]
  have r: "fst ?r = Response JNull 204"
    and l: "length (notifications (snd ?r)) = 3"
    and i: "\<forall>i < 3. notifications (snd ?r) ! i
        = (if notification_user (example_notifications ! i) = user_id resident
           then (example_notifications ! i)\<lparr>is_read := True\<rparr> else example_notifications ! i)"
    and f: "snd ?r = example_db\<lparr>notifications := notifications (snd ?r)\<rparr>"
    by (simp_all add: n example_notifications_def)
  have "notifications (snd ?r) = [notifications (snd ?r) ! 0, notifications (snd ?r) ! 1,
      notifications (snd ?r) ! 2]"
    using l by (cases "notifications (snd ?r)" rule: list.exhaust)
      (auto simp: numeral_3_eq_3 length_Suc_conv)
  also have "\<dots> = [\<lparr>notification_id = 1, notification_user = 2, message = ''Nueva cuota emitida'',
             is_read = True\<rparr>,
           \<lparr>notification_id = 2, notification_user = 3, message = ''Reserva confirmada'',
             is_read = False\<rparr>,
           \<lparr>notification_id = 3, notification_user = 2, message = ''Pago registrado'',
             is_read = True\<rparr>]"
    using i by (simp add: example_notifications_def resident_def)
  finally have ns: "notifications (snd ?r) = [\<lparr>notification_id = 1, notification_user = 2, message = ''Nueva cuota emitida'',
             is_read = True\<rparr>,
           \<lparr>notification_id = 2, notification_user = 3, message = ''Reserva confirmada'',
             is_read = False\<rparr>,
           \<lparr>notification_id = 3, notification_user = 2, message = ''Pago registrado'',
             is_read = True\<rparr>]" .
  show ?thesis
    using r f ns by (metis prod.collapse)
qed

section \<open>The dashboard's pending total and the report's outstanding value\<close>

text \<open>
  Claim C9. When every fee's status is one of \<^verbatim>\<open>ISSUED\<close>, \<^verbatim>\<open>PAID\<close>, \<^verbatim>\<open>OVERDUE\<close>, the
  financial report asked with no filter by an authenticated user answers 200 and its
  overall outstanding value (issued minus paid) is the dashboard's
  \<^verbatim>\<open>pending_fees_total\<close> over the same fees, which is the sum of the amounts of the
  fees whose status is \<^verbatim>\<open>ISSUED\<close> or \<^verbatim>\<open>OVERDUE\<close>.
\<close>

theorem dashboard_pending_is_report_outstanding:
  assumes statuses: "\<forall>f \<in> set (fees d). fee_status f \<in> {''ISSUED'', ''PAID'', ''OVERDUE''}"
    and auth: "IsAuthenticated request"
    and nofilter: "query_params request ''from'' = None" "query_params request ''to'' = None"
      "query_params request ''owner'' = None"
    and admin: "IsAdmin request'"
  shows "\<exists>resp. FinanceReportView_get to_key request d = Inr resp
           \<and> status_code resp = 200
           \<and> Option.bind (jget (body resp) ''overall'') (\<lambda>ov. jget ov ''outstanding'')
               = Some (JNum (pending_fees_total d))
           \<and> jget (body (DashboardStatsView_get IsAdmin request' d)) ''pending_fees_total''
               = Some (JNum (pending_fees_total d))
           \<and> pending_fees_total d
               = sum_list (map amount
                   (filter (\<lambda>f. fee_status f = ''ISSUED'' \<or> fee_status f = ''OVERDUE'') (fees d)))"
proof -
  have same: "filter (\<lambda>f. \<not> is_paid f) (fees d)
      = filter (\<lambda>f. fee_status f \<in> set [''ISSUED'', ''OVERDUE'']) (fees d)"
    using statuses by (intro filter_cong refl) (auto simp: is_paid_def)
  have pend: "pending_fees_total d = sum_list (map amount (filter (\<lambda>f. \<not> is_paid f) (fees d)))"
    by (simp add: pending_fees_total_def or_0_Sum same)
  have out: "sum_list (map amount (fees d)) - sum_list (map amount (filter is_paid (fees d)))
      = pending_fees_total d"
    using sum_split_filter [of "fees d" is_paid] by (simp add: pend)
  have rep: "FinanceReportView_get to_key request d = Inr (Response (report_data (fees d)) 200)"
    using auth nofilter by (simp add: FinanceReportView_get_def report_queryset_def)
  have dash: "jget (body (DashboardStatsView_get IsAdmin request' d)) ''pending_fees_total''
      = Some (JNum (pending_fees_total d))"
    using admin by (simp add: DashboardStatsView_get_def Response_def)
  have expl: "pending_fees_total d
      = sum_list (map amount
          (filter (\<lambda>f. fee_status f = ''ISSUED'' \<or> fee_status f = ''OVERDUE'') (fees d)))"
    by (simp add: pending_fees_total_def or_0_Sum)
  show ?thesis
    using rep dash expl overall_outstanding [of "fees d"] out
    by (simp add: Response_def)
qed

theorem dashboard_pending_is_report_outstanding_witness:
  "FinanceReportView_get no_key (request_of (Some resident) ()) example_db
       = Inr (Response (report_data example_fees) 200)
   \<and> Option.bind (jget (report_data example_fees) ''overall'') (\<lambda>ov. jget ov ''outstanding'')
       = Some (JNum 2000)
   \<and> jget (body (DashboardStatsView_get IsAdmin_by_role (request_of (Some admin_user) ())
        example_db)) ''pending_fees_total'' = Some (JNum 2000)"
proof -
  have statuses:
    "\<forall>f \<in> set (fees example_db). fee_status f \<in> {''ISSUED'', ''PAID'', ''OVERDUE''}"
    by (simp add: example_db_def example_fees_def)
  have auth: "IsAuthenticated (request_of (Some resident) ())"
    by (simp add: IsAuthenticated_def request_of_def)
  have admin: "IsAdmin_by_role (request_of (Some admin_user) ())"
    by (simp add: IsAdmin_by_role_def request_of_def admin_user_def is_profile_admin_def)
  have total: "sum_list (map amount
      (filter (\<lambda>f. fee_status f = ''ISSUED'' \<or> fee_status f = ''OVERDUE'') (fees example_db)))
      = 2000"
    by (simp add: example_db_def example_fees_def)
  have fs: "fees example_db = example_fees"
    by (simp add: example_db_def)
  have nofilter: "query_params (request_of (Some resident) ()) k = None" for k
    by (simp add: request_of_def)
  from dashboard_pending_is_report_outstanding
    [where d = example_db and request = "request_of (Some resident) ()" and to_key = no_key
       and IsAdmin = IsAdmin_by_role and request' = "request_of (Some admin_user) ()",
     OF statuses auth nofilter nofilter nofilter admin]
  obtain resp where
    r: "FinanceReportView_get no_key (request_of (Some resident) ()) example_db = Inr resp"
    and o: "Option.bind (jget (body resp) ''overall'') (\<lambda>ov. jget ov ''outstanding'')
       = Some (JNum (pending_fees_total example_db))"
    and p: "jget (body (DashboardStatsView_get IsAdmin_by_role (request_of (Some admin_user) ())
       example_db)) ''pending_fees_total'' = Some (JNum (pending_fees_total example_db))"
    and t: "pending_fees_total example_db = sum_list (map amount
       (filter (\<lambda>f. fee_status f = ''ISSUED'' \<or> fee_status f = ''OVERDUE'') (fees example_db)))"
    by blast
  have resp: "resp = Response (report_data example_fees) 200"
    using r auth nofilter by (simp add: FinanceReportView_get_def report_queryset_def fs)
  show ?thesis
    using r o p t by (simp add: total resp Response_def)
qed

section \<open>Notices with a future publish date\<close>

lemma set_notice_queryset:
  "set (NoticeViewSet_get_queryset now d) = {n \<in> set (notices d). publish_date n \<le> now}"
  by (simp add: NoticeViewSet_get_queryset_def)

text \<open>
  Claim C10, as amended. For every request and every notice whose \<^verbatim>\<open>publish_date\<close> is
  later than the current time: the notice is not in the queryset, whose notices all have
  a \<^verbatim>\<open>publish_date\<close> up to the current time; the list answer of an authenticated request
  is the serialized queryset; retrieving the notice answers not-found (404) to an
  authenticated request, and the same request gets the notice once its \<^verbatim>\<open>publish_date\<close>
  has passed; an unauthenticated request is refused by the permission check, for list and
  retrieve alike.
\<close>

theorem future_notice_hidden:
  assumes keys: "distinct (map notice_id (notices d))"
    and n: "n \<in> set (notices d)"
    and future: "now < publish_date n"
  shows "n \<notin> set (NoticeViewSet_get_queryset now d)
     \<and> (\<forall>m \<in> set (NoticeViewSet_get_queryset now d). publish_date m \<le> now)
     \<and> NoticeViewSet_list NoticeSerializer now request d
           = (if IsAuthenticated request
              then Response (JArr (map NoticeSerializer (NoticeViewSet_get_queryset now d))) 200
              else permission_denied request)
     \<and> NoticeViewSet_retrieve NoticeSerializer now request (notice_id n) d
           = (if IsAuthenticated request then not_found else permission_denied request)
     \<and> status_code not_found = 404
     \<and> (publish_date n \<le> now' \<and> IsAuthenticated request \<longrightarrow>
           NoticeViewSet_retrieve NoticeSerializer now' request (notice_id n) d
             = Response (NoticeSerializer n) 200)"
proof -
  have out: "n \<notin> set (NoticeViewSet_get_queryset now d)"
    using future by (simp add: set_notice_queryset)
  have sub: "set (NoticeViewSet_get_queryset t d) \<subseteq> set (notices d)" for t
    by (auto simp: set_notice_queryset)
  have none: "find (\<lambda>m. notice_id m = notice_id n) (NoticeViewSet_get_queryset now d) = None"
    by (rule find_absent [OF keys sub n out])
  have some: "find (\<lambda>m. notice_id m = notice_id n) (NoticeViewSet_get_queryset now' d) = Some n"
    if "publish_date n \<le> now'"
    by (rule find_by_key [OF keys sub]) (simp add: set_notice_queryset n that)
  show ?thesis
    using out none some
    by (simp add: set_notice_queryset NoticeViewSet_list_def NoticeViewSet_retrieve_def
          not_found_def Response_def)
qed

theorem future_notice_hidden_witness:
  "NoticeViewSet_list notice_json 200 (request_of (Some resident) ()) example_db
     = Response (JArr [notice_json notice_ascensores]) 200
   \<and> NoticeViewSet_retrieve notice_json 200 (request_of (Some resident) ()) 2 example_db
       = not_found
   \<and> NoticeViewSet_retrieve notice_json 300 (request_of (Some resident) ()) 2 example_db
       = Response (notice_json notice_fumigacion) 200"
proof -
  have keys: "distinct (map notice_id (notices example_db))"
    by (simp add: example_db_def example_notices_def notice_ascensores_def notice_fumigacion_def)
  have n: "notice_fumigacion \<in> set (notices example_db)"
    by (simp add: example_db_def example_notices_def)
  have future: "200 < publish_date notice_fumigacion"
    by (simp add: notice_fumigacion_def)
  have auth: "IsAuthenticated (request_of (Some resident) ())"
    by (simp add: IsAuthenticated_def request_of_def)
  have qs: "NoticeViewSet_get_queryset 200 example_db = [notice_ascensores]"
    by (simp add: NoticeViewSet_get_queryset_def example_db_def example_notices_def
          notice_ascensores_def notice_fumigacion_def)
  have k: "notice_id notice_fumigacion = 2" "publish_date notice_fumigacion \<le> 300"
    by (simp_all add: notice_fumigacion_def)
  from future_notice_hidden [OF keys n future, of notice_json "request_of (Some resident) ()" 300]
  show ?thesis
    by (simp add: auth qs k)
qed

text \<open>
  The claim as stated promises not-found to every request. An anonymous request for the
  notice of key 2, published at 300, at time 200 is answered 401.
\<close>

theorem anonymous_retrieve_is_not_not_found:
  "notice_fumigacion \<in> set (notices example_db)
   \<and> publish_date notice_fumigacion = 300
   \<and> notice_id notice_fumigacion = 2
   \<and> NoticeViewSet_retrieve notice_json 200 (request_of None ()) 2 example_db
       = Response (detail ''Authentication credentials were not provided.'') 401"
  by (simp add: example_db_def example_notices_def notice_fumigacion_def
        NoticeViewSet_retrieve_def IsAuthenticated_def request_of_def permission_denied_def)

end
